theory Spec2Isabelle
  imports Main "HOL-Library.AList"
begin

section \<open>Platform detection and path helpers of \<open>shell.ts\<close>\<close>

text \<open>
  JavaScript strings are modelled as \<^typ>\<open>string\<close>: sequences of code units below 256.
  Of the character classes of the source, \<open>\s\<close> and \<open>.\<close> speak about code units
  beyond that range (U+2028, U+FEFF and others); those are outside the model. The
  operating-system identifier \<open>process.platform\<close> is read from the runtime; every
  function that reads it takes it as its first argument \<open>pf\<close>.
\<close>

datatype Platform = Windows | MacOS | Linux | Unsupported

abbreviation WINDOWS :: string where
  "WINDOWS \<equiv> ''win32''"

abbreviation backslash :: char where
  "backslash \<equiv> CHR 0x5C"

abbreviation dquote :: char where
  "dquote \<equiv> CHR 0x22"

definition isWindows :: "string \<Rightarrow> bool" where
  "isWindows pf = (pf = WINDOWS)"

definition isUnix :: "string \<Rightarrow> bool" where
  "isUnix pf = (\<not> isWindows pf)"

definition platform :: "string \<Rightarrow> Platform" where
  "platform pf =
     (if pf = ''win32'' then Windows
      else if pf = ''darwin'' then MacOS
      else if pf = ''linux'' then Linux
      else Unsupported)"

text \<open>
  \<open>s.replace(/c/g, r)\<close> for a pattern that is one literal character \<open>c\<close>: every
  occurrence of \<open>c\<close> is replaced by the string \<open>r\<close>, in one pass from left to right.
\<close>

definition replace_all :: "char \<Rightarrow> string \<Rightarrow> string \<Rightarrow> string" where
  "replace_all c r s = concat (map (\<lambda>x. if x = c then r else [x]) s)"

definition combinePath :: "string \<Rightarrow> string \<Rightarrow> string \<Rightarrow> string" where
  "combinePath pf basePath relativePath =
     (let (relativePath', separator) =
            (if isWindows pf
             then (replace_all CHR ''/'' [backslash] relativePath, [backslash])
             else (relativePath, ''/''))
      in basePath @ separator @ relativePath')"

text \<open>
  \<open>vscode.Uri.parse\<close> belongs to the editor's API, not to this repository; it is the
  parameter \<open>parse\<close>.
\<close>

definition fileUri :: "(string \<Rightarrow> 'uri) \<Rightarrow> string \<Rightarrow> string \<Rightarrow> 'uri" where
  "fileUri parse pf filePath =
     (if isWindows pf
      then parse (''file:///'' @ replace_all backslash ''/'' filePath)
      else parse (''file://'' @ filePath))"

section \<open>Objects, the process environment and the host\<close>

text \<open>
  A JavaScript object with string values is an association list in property order:
  reading a property is a lookup, assigning to an existing property keeps its place,
  assigning to a new one appends it. \<open>undefined\<close> is \<open>None\<close>. \<open>process.env\<close>
  is modelled as such an object too, with case-sensitive names as on POSIX systems.
\<close>

type_synonym jsobj = "(string \<times> string) list"

definition obj_get :: "jsobj \<Rightarrow> string \<Rightarrow> string option" where
  "obj_get obj k = map_of obj k"

definition obj_set :: "jsobj \<Rightarrow> string \<Rightarrow> string \<Rightarrow> jsobj" where
  "obj_set obj k v = AList.update k v obj"

definition object_keys :: "jsobj \<Rightarrow> string list" where
  "object_keys obj = map fst obj"

text \<open>
  \<open>Object.assign(target, source)\<close>: for every key of the source, in order, the
  source's value of that key is assigned to the target.
\<close>

definition object_assign :: "jsobj \<Rightarrow> jsobj \<Rightarrow> jsobj" where
  "object_assign target source =
     fold (\<lambda>k t. case obj_get source k of Some v \<Rightarrow> obj_set t k v | None \<Rightarrow> t)
          (object_keys source) target"

text \<open>Truthiness of a string or \<open>undefined\<close>/\<open>null\<close>: only a non-empty string is truthy.\<close>

fun truthy :: "string option \<Rightarrow> bool" where
  "truthy None = False"
| "truthy (Some s) = (s \<noteq> [])"

text \<open>
  Objects are shared by reference. \<open>process.env\<close> is the one global object of this
  file; every other object lives in a store indexed by allocation order, so that a new
  object never aliases an old one. The world also records, in order, the commands that
  \<open>shelljs.exec\<close> ran and the lines written by \<open>console.log\<close>.
\<close>

datatype ref = ProcessEnv | Obj nat

record world =
  process_env :: jsobj
  objects :: "jsobj list"
  executed :: "string list"
  console :: "string list"

fun valid_ref :: "world \<Rightarrow> ref \<Rightarrow> bool" where
  "valid_ref w ProcessEnv = True"
| "valid_ref w (Obj n) = (n < length (objects w))"

fun deref :: "world \<Rightarrow> ref \<Rightarrow> jsobj" where
  "deref w ProcessEnv = process_env w"
| "deref w (Obj n) = objects w ! n"

fun store :: "world \<Rightarrow> ref \<Rightarrow> jsobj \<Rightarrow> world" where
  "store w ProcessEnv obj = w\<lparr>process_env := obj\<rparr>"
| "store w (Obj n) obj = w\<lparr>objects := (objects w)[n := obj]\<rparr>"

definition alloc :: "jsobj \<Rightarrow> world \<Rightarrow> ref \<times> world" where
  "alloc obj w = (Obj (length (objects w)), w\<lparr>objects := objects w @ [obj]\<rparr>)"

definition console_log :: "string \<Rightarrow> world \<Rightarrow> world" where
  "console_log msg w = w\<lparr>console := console w @ [msg]\<rparr>"

record ShellResult =
  code :: int
  stdout :: string
  stderr :: string

text \<open>
  What the code takes from outside this repository: the platform identifier,
  \<open>shelljs.which\<close> and \<open>shelljs.exec\<close> (whose answers may depend on everything that
  happened so far), Node's \<open>path.dirname\<close>, and the settings object
  \<open>vscode.workspace.getConfiguration('vs-kubernetes')\<close>.
\<close>

record host =
  process_platform :: string
  shelljs_which :: "world \<Rightarrow> string \<Rightarrow> string option"
  shelljs_exec :: "world \<Rightarrow> string \<Rightarrow> ShellResult"
  path_dirname :: "string \<Rightarrow> string"
  configuration :: "string \<Rightarrow> string option"

definition exec_sync :: "host \<Rightarrow> string \<Rightarrow> world \<Rightarrow> ShellResult \<times> world" where
  "exec_sync h cmd w = (shelljs_exec h w cmd, w\<lparr>executed := executed w @ [cmd]\<rparr>)"

datatype error = TypeError

section \<open>Parsing the helper's output\<close>

text \<open>\<open>stdout.split(/[\r\n]+/)\<close>: the pieces between maximal runs of CR and LF.\<close>

definition is_line_break :: "char \<Rightarrow> bool" where
  "is_line_break c = (c = CHR 0x0D \<or> c = CHR 0x0A)"

fun split_aux :: "string \<Rightarrow> bool \<Rightarrow> string \<Rightarrow> string list" where
  "split_aux cur in_sep [] = [cur]"
| "split_aux cur in_sep (c # cs) =
     (if is_line_break c
      then (if in_sep then split_aux cur True cs else cur # split_aux [] True cs)
      else split_aux (cur @ [c]) False cs)"

definition split_lines :: "string \<Rightarrow> string list" where
  "split_lines s = split_aux [] False s"

text \<open>
  The pattern \<open>/^export\s*([a-zA-Z0-9_]*)=(.*)$/\<close>. The classes \<open>\s\<close> and
  \<open>[a-zA-Z0-9_]\<close> and the character \<open>=\<close> are pairwise disjoint, so the greedy
  match is found without backtracking: after \<open>export\<close> the longest run of white space,
  then the longest run of name characters, then \<open>=\<close>, then a rest without line
  terminator up to the end of the input. The result is the match array: the whole
  match and the two groups.
\<close>

definition is_space :: "char \<Rightarrow> bool" where
  "is_space c = (c \<in> set [CHR 0x09, CHR 0x0A, CHR 0x0B, CHR 0x0C, CHR 0x0D, CHR 0x20, CHR 0xA0])"

definition is_word :: "char \<Rightarrow> bool" where
  "is_word c = (c \<in> set ''abcdefghijklmnopqrstuvwxyzABCDEFGHIJKLMNOPQRSTUVWXYZ0123456789_'')"

definition regexp_exec :: "string \<Rightarrow> string list option" where
  "regexp_exec line =
     (if take 6 line = ''export''
      then (let r1 = dropWhile is_space (drop 6 line);
                name = takeWhile is_word r1;
                r2 = dropWhile is_word r1
            in case r2 of
                 [] \<Rightarrow> None
               | c # val \<Rightarrow>
                   if c = CHR ''='' \<and> list_all (\<lambda>x. \<not> is_line_break x) val
                   then Some [line, name, val] else None)
      else None)"

text \<open>The callback of \<open>lines.map\<close>, and the loop over the lines.\<close>

definition export_line :: "string \<Rightarrow> world \<Rightarrow> world" where
  "export_line line w =
     (case regexp_exec line of
        Some match \<Rightarrow>
          if length match \<ge> 2
          then (let varName = match ! 1;
                    varValue = replace_all dquote [] (match ! 2);
                    w1 = console_log (varName @ ''='' @ varValue) w
                in store w1 ProcessEnv (obj_set (deref w1 ProcessEnv) varName varValue))
          else console_log (''No match for line :'' @ line) w
      | None \<Rightarrow> console_log (''No match for line :'' @ line) w)"

section \<open>Auto-detection of the Docker environment\<close>

text \<open>
  Lines 172 to 195: what is done with \<open>shellResult\<close>, which is \<open>null\<close> (\<open>None\<close>) or
  the result of a helper. Reading \<open>.code\<close> of \<open>null\<close> throws a TypeError.
\<close>

definition configure_from :: "ShellResult option \<Rightarrow> world \<Rightarrow> (error + bool) \<times> world" where
  "configure_from shellResult w =
     (case shellResult of
        None \<Rightarrow> (Inl TypeError, w)
      | Some r \<Rightarrow>
          if code r = 0 \<and> \<not> truthy (Some (stderr r))
          then (let lines = split_lines (stdout r);
                    lines = filter (\<lambda>l. length l > 0) lines
                in (Inr False, fold export_line lines w))
          else (Inr False, console_log (''Error Configuring Docker :'' @ stderr r) w))"

definition autoDockerEnvConfig :: "host \<Rightarrow> ref \<Rightarrow> world \<Rightarrow> (error + bool) \<times> world" where
  "autoDockerEnvConfig h env w =
     (if \<not> truthy (obj_get (deref w ProcessEnv) ''DOCKER_HOST'')
         \<and> \<not> truthy (obj_get (deref w ProcessEnv) ''DOCKER_CERT_PATH'')
      then (let (shellResult, tryMinishift, w1) =
                  (if truthy (shelljs_which h w ''minikube'')
                   then (let (r, w') = exec_sync h ''minikube docker-env'' w
                         in (Some r, code r \<noteq> 0 \<or> truthy (Some (stderr r)), w'))
                   else (None, True, w));
                shellResult = None
            in if tryMinishift
               then (if truthy (shelljs_which h w1 ''minishift'')
                     then (let (r, w2) = exec_sync h ''minishift docker-env'' w1
                           in configure_from (Some r) w2)
                     else (Inr False, w1))
               else configure_from shellResult w1)
      else (Inr False, w))"

section \<open>The environment of spawned commands\<close>

text \<open>
  \<open>toLowerCase\<close> is only used to compare a key with \<open>path\<close>. The letters A to Z
  are mapped to lower case and every other character is kept, which decides that
  comparison as JavaScript does.
\<close>

definition toLowerCase :: "string \<Rightarrow> string" where
  "toLowerCase s =
     map (\<lambda>c. case map_of (zip ''ABCDEFGHIJKLMNOPQRSTUVWXYZ'' ''abcdefghijklmnopqrstuvwxyz'') c of
                Some l \<Rightarrow> l | None \<Rightarrow> c) s"

definition pathVariableName :: "string \<Rightarrow> jsobj \<Rightarrow> string" where
  "pathVariableName pf env =
     (if isWindows pf
      then (case find (\<lambda>v. toLowerCase v = ''path'') (object_keys env) of
              Some v \<Rightarrow> v | None \<Rightarrow> ''PATH'')
      else ''PATH'')"

definition pathEntrySeparator :: "string \<Rightarrow> string" where
  "pathEntrySeparator pf = (if isWindows pf then '';'' else '':'')"

text \<open>
  The loop over the tools. \<open>env\<close> is the reference of the object under construction;
  an exception thrown by the auto-detection ends the loop.
\<close>

fun for_tools :: "host \<Rightarrow> ref \<Rightarrow> string \<Rightarrow> string list \<Rightarrow> world \<Rightarrow> (error + unit) \<times> world" where
  "for_tools h env pathVariable [] w = (Inr (), w)"
| "for_tools h env pathVariable (tool # tools) w =
     (let toolPath = configuration h (''vs-kubernetes.'' @ tool @ ''-path'')
      in if truthy toolPath
         then (let toolDirectory = path_dirname h (the toolPath);
                   currentPath = obj_get (deref w env) pathVariable
               in case autoDockerEnvConfig h env w of
                    (Inl e, w1) \<Rightarrow> (Inl e, w1)
                  | (Inr b, w1) \<Rightarrow>
                      for_tools h env pathVariable tools
                        (store w1 env
                           (obj_set (deref w1 env) pathVariable
                              ((if truthy currentPath
                                then the currentPath @ pathEntrySeparator (process_platform h)
                                else []) @ toolDirectory))))
         else for_tools h env pathVariable tools w)"

definition shellEnvironment :: "host \<Rightarrow> ref \<Rightarrow> world \<Rightarrow> (error + ref) \<times> world" where
  "shellEnvironment h baseEnvironment w =
     (let (env, w1) = alloc (object_assign [] (deref w baseEnvironment)) w;
          pathVariable = pathVariableName (process_platform h) (deref w1 env)
      in case for_tools h env pathVariable [''kubectl'', ''helm'', ''draft''] w1 of
           (Inl e, w2) \<Rightarrow> (Inl e, w2)
         | (Inr u, w2) \<Rightarrow>
             (let kubeconfig = configuration h ''vs-kubernetes.kubeconfig''
              in if truthy kubeconfig
                 then (Inr env, store w2 env (obj_set (deref w2 env) ''KUBECONFIG'' (the kubeconfig)))
                 else (Inr env, w2)))"

section \<open>Notions used to state the properties\<close>

text \<open>
  A line has the form \<open>export NAME=VALUE\<close>: the word \<open>export\<close>, white space
  (possibly none), a name of letters, digits and underscores (possibly empty), the
  character \<open>=\<close>, and a value that runs to the end of the line.
\<close>

definition export_pattern :: "string \<Rightarrow> string \<Rightarrow> string \<Rightarrow> bool" where
  "export_pattern line name val =
     (\<exists>ws. line = ''export'' @ ws @ name @ ''='' @ val
         \<and> list_all is_space ws \<and> list_all is_word name
         \<and> list_all (\<lambda>x. \<not> is_line_break x) val)"

text \<open>The lines that are left after the empty ones are discarded.\<close>

definition nonempty_lines :: "string \<Rightarrow> string list" where
  "nonempty_lines s = filter (\<lambda>l. length l > 0) (split_lines s)"

text \<open>The name of the setting of a tool, and the directories of the configured tools.\<close>

definition tool_setting :: "string \<Rightarrow> string" where
  "tool_setting tool = ''vs-kubernetes.'' @ tool @ ''-path''"

definition configured_dirs :: "host \<Rightarrow> string list \<Rightarrow> string list" where
  "configured_dirs h tools =
     map (\<lambda>t. path_dirname h (the (configuration h (tool_setting t))))
         (filter (\<lambda>t. truthy (configuration h (tool_setting t))) tools)"

text \<open>
  Appending a directory to a search path: after the current value and a separator, or
  alone when there is no current value or it is empty.
\<close>

definition append_entry :: "string \<Rightarrow> string option \<Rightarrow> string \<Rightarrow> string option" where
  "append_entry sep cur dir =
     Some (case cur of None \<Rightarrow> dir | Some p \<Rightarrow> if p = [] then dir else p @ sep @ dir)"

section \<open>Test fixtures\<close>

text \<open>
  A Linux host on which exactly the helpers in \<open>helpers\<close> are found on the search
  path; every helper exits with code 0, prints \<open>out\<close> and leaves standard error empty.
  The settings give a path for kubectl and for helm, none for draft and no kubeconfig.
\<close>

definition fake_host :: "string list \<Rightarrow> string \<Rightarrow> host" where
  "fake_host helpers out =
     \<lparr>process_platform = ''linux'',
      shelljs_which = (\<lambda>w cmd. if cmd \<in> set helpers then Some (''/usr/local/bin/'' @ cmd) else None),
      shelljs_exec = (\<lambda>w cmd. \<lparr>code = 0, stdout = out, stderr = []\<rparr>),
      path_dirname = (\<lambda>p. if p = ''/opt/k/kubectl'' then ''/opt/k''
                          else if p = ''/opt/h/helm'' then ''/opt/h'' else ''.''),
      configuration = (\<lambda>k. if k = ''vs-kubernetes.kubectl-path'' then Some ''/opt/k/kubectl''
                           else if k = ''vs-kubernetes.helm-path'' then Some ''/opt/h/helm''
                           else None)\<rparr>"

text \<open>The output \<open>export DOCKER_HOST="tcp://1.2.3.4:2376"\<close> followed by a newline.\<close>

definition docker_env_output :: string where
  "docker_env_output =
     ''export DOCKER_HOST='' @ [dquote] @ ''tcp://1.2.3.4:2376'' @ [dquote, CHR 0x0A]"

text \<open>
  Two exports with a comment line and an empty line between them:
  \<open>export DOCKER_TLS_VERIFY="1"\<close>, \<open># Run this command\<close>, \<open>export DOCKER_API_VERSION=1.35\<close>.
\<close>

definition docker_env_output2 :: string where
  "docker_env_output2 =
     ''export DOCKER_TLS_VERIFY='' @ [dquote, CHR ''1'', dquote, CHR 0x0D, CHR 0x0A]
       @ ''# Run this command'' @ [CHR 0x0A, CHR 0x0A]
       @ ''export DOCKER_API_VERSION=1.35'' @ [CHR 0x0A]"

text \<open>
  A world whose process environment holds only \<open>PATH\<close>, with one other object
  (\<open>Obj 0\<close>) that a caller owns.
\<close>

definition bare_world :: world where
  "bare_world =
     \<lparr>process_env = [(''PATH'', ''/usr/bin'')],
      objects = [[(''PATH'', ''/bin''), (''HOME'', ''/root'')]],
      executed = [], console = []\<rparr>"

section \<open>Properties of the helpers\<close>

lemma replace_all_single: "replace_all c [d] s = map (\<lambda>x. if x = c then d else x) s"
  by (induction s) (simp_all add: replace_all_def)

lemma replace_all_empty: "replace_all c [] s = filter (\<lambda>x. x \<noteq> c) s"
  by (induction s) (simp_all add: replace_all_def)

text \<open>
  Claim C7. For every operating-system identifier \<open>platform\<close> returns one of the four
  values of the enumeration: \<open>win32\<close> gives Windows, \<open>darwin\<close> gives MacOS, \<open>linux\<close>
  gives Linux, and every other identifier gives Unsupported.
\<close>

theorem platform_total:
  "platform ''win32'' = Windows \<and> platform ''darwin'' = MacOS \<and> platform ''linux'' = Linux
   \<and> (pf \<notin> {''win32'', ''darwin'', ''linux''} \<longrightarrow> platform pf = Unsupported)
   \<and> platform pf \<in> {Windows, MacOS, Linux, Unsupported}"
  by (simp add: platform_def)

theorem platform_total_witness:
  "''freebsd'' \<notin> {''win32'', ''darwin'', ''linux''} \<and> platform ''freebsd'' = Unsupported"
  using platform_total [of "''freebsd''"] by simp

text \<open>
  Claim C8. On Windows \<open>combinePath base relative\<close> is \<open>base\<close>, a backslash, and
  \<open>relative\<close> with every forward slash turned into a backslash (same length, every
  other character kept); elsewhere it is \<open>base\<close>, a forward slash, and \<open>relative\<close>
  as it is. For \<open>/a\<close> and \<open>b/c\<close> this gives \<open>/a/b/c\<close> on Unix and
  \<open>/a\b\c\<close> on Windows.
\<close>

theorem combinePath_spec:
  "(isWindows pf \<longrightarrow>
      combinePath pf base relative
        = base @ [backslash] @ map (\<lambda>c. if c = CHR ''/'' then backslash else c) relative)
   \<and> (isUnix pf \<longrightarrow> combinePath pf base relative = base @ ''/'' @ relative)
   \<and> combinePath ''linux'' ''/a'' ''b/c'' = ''/a/b/c''
   \<and> combinePath ''win32'' ''/a'' ''b/c'' = [CHR ''/'', CHR ''a'', backslash, CHR ''b'', backslash, CHR ''c'']"
  by (simp add: combinePath_def isUnix_def isWindows_def replace_all_single)

theorem combinePath_spec_witness:
  "isWindows ''win32'' \<and> isUnix ''darwin''
   \<and> combinePath ''win32'' ''C:'' ''x/y'' = [CHR ''C'', CHR '':'', backslash, CHR ''x'', backslash, CHR ''y'']
   \<and> combinePath ''darwin'' ''/usr'' ''x/y'' = ''/usr/x/y''"
  using combinePath_spec [of "''win32''" "''C:''" "''x/y''"]
        combinePath_spec [of "''darwin''" "''/usr''" "''x/y''"]
  by (simp add: isUnix_def isWindows_def)

text \<open>
  Claim C9. On Windows \<open>fileUri path\<close> is the URI parsed from \<open>file:///\<close> followed by
  the path with every backslash turned into a forward slash, so \<open>C:\a\b\<close> gives
  \<open>file:///C:/a/b\<close>; elsewhere it is the URI parsed from \<open>file://\<close> followed by the
  path as it is, so \<open>/a/b\<close> gives \<open>file:///a/b\<close>.
\<close>

theorem fileUri_spec:
  "(isWindows pf \<longrightarrow>
      fileUri parse pf path
        = parse (''file:///'' @ map (\<lambda>c. if c = backslash then CHR ''/'' else c) path))
   \<and> (\<not> isWindows pf \<longrightarrow> fileUri parse pf path = parse (''file://'' @ path))
   \<and> fileUri parse ''win32'' [CHR ''C'', CHR '':'', backslash, CHR ''a'', backslash, CHR ''b'']
        = parse ''file:///C:/a/b''
   \<and> fileUri parse ''linux'' ''/a/b'' = parse ''file:///a/b''"
  by (simp add: fileUri_def isWindows_def replace_all_single)

theorem fileUri_spec_witness:
  "isWindows ''win32'' \<and> \<not> isWindows ''darwin''
   \<and> fileUri id ''win32'' [CHR ''D'', CHR '':'', backslash, CHR ''t''] = ''file:///D:/t''
   \<and> fileUri id ''darwin'' ''/tmp/x'' = ''file:///tmp/x''"
  using fileUri_spec [of "''win32''" id "[CHR ''D'', CHR '':'', backslash, CHR ''t'']"]
        fileUri_spec [of "''darwin''" id "''/tmp/x''"]
  by (simp add: isWindows_def)


section \<open>The store and the auto-detection: frame lemmas\<close>


lemma console_log_frame [simp]:
  "process_env (console_log m w) = process_env w"
  "objects (console_log m w) = objects w"
  "executed (console_log m w) = executed w"
  "console (console_log m w) = console w @ [m]"
  by (simp_all add: console_log_def)

lemma export_line_frame [simp]:
  "objects (export_line line w) = objects w"
  "executed (export_line line w) = executed w"
  by (simp_all add: export_line_def Let_def split: option.splits)

lemma fold_export_line_frame [simp]:
  "objects (fold export_line ls w) = objects w"
  "executed (fold export_line ls w) = executed w"
  by (induction ls arbitrary: w) simp_all

lemma configure_from_frame [simp]:
  "objects (snd (configure_from r w)) = objects w"
  "executed (snd (configure_from r w)) = executed w"
  by (simp_all add: configure_from_def Let_def split: option.splits)

lemma exec_sync_frame [simp]:
  "objects (snd (exec_sync h c w)) = objects w"
  "process_env (snd (exec_sync h c w)) = process_env w"
  "console (snd (exec_sync h c w)) = console w"
  "executed (snd (exec_sync h c w)) = executed w @ [c]"
  "fst (exec_sync h c w) = shelljs_exec h w c"
  by (simp_all add: exec_sync_def)

lemma autoDockerEnvConfig_objects [simp]:
  "objects (snd (autoDockerEnvConfig h env w)) = objects w"
  by (simp add: autoDockerEnvConfig_def Let_def split_beta)

lemma autoDockerEnvConfig_skip:
  "truthy (obj_get (process_env w) ''DOCKER_HOST'') \<or> truthy (obj_get (process_env w) ''DOCKER_CERT_PATH'')
   \<Longrightarrow> autoDockerEnvConfig h env w = (Inr False, w)"
  by (auto simp add: autoDockerEnvConfig_def)

lemma minikube_success_throws:
  "\<not> truthy (obj_get (process_env w) ''DOCKER_HOST'') \<Longrightarrow> \<not> truthy (obj_get (process_env w) ''DOCKER_CERT_PATH'') \<Longrightarrow>
   truthy (shelljs_which h w ''minikube'') \<Longrightarrow>
   code (shelljs_exec h w ''minikube docker-env'') = 0 \<Longrightarrow> stderr (shelljs_exec h w ''minikube docker-env'') = [] \<Longrightarrow>
   autoDockerEnvConfig h env w = (Inl TypeError, w\<lparr>executed := executed w @ [''minikube docker-env'']\<rparr>)"
  by (simp add: autoDockerEnvConfig_def exec_sync_def configure_from_def)



section \<open>The pattern and the splitting into lines\<close>


lemma eq_not_space: "\<not> is_space CHR ''=''"
  by (simp add: is_space_def)

lemma eq_not_word: "\<not> is_word CHR ''=''"
  by (simp add: is_word_def)

lemma word_not_space: "is_word c \<Longrightarrow> \<not> is_space c"
  by (auto simp add: is_word_def is_space_def)

lemma dropWhile_space_name:
  assumes "list_all is_space ws" "list_all is_word name"
  shows "dropWhile is_space (ws @ name @ CHR ''='' # val) = name @ CHR ''='' # val"
proof -
  have "dropWhile is_space (name @ CHR ''='' # val) = name @ CHR ''='' # val"
    using assms(2) by (cases name) (simp_all add: eq_not_space word_not_space)
  moreover have "\<forall>x\<in>set ws. is_space x" using assms(1) by (simp add: list_all_iff)
  ultimately show ?thesis by (simp add: dropWhile_append)
qed

lemma regexp_exec_complete:
  assumes "export_pattern line name val"
  shows "regexp_exec line = Some [line, name, val]"
proof -
  from assms obtain ws where l: "line = ''export'' @ ws @ name @ ''='' @ val"
    and ws: "list_all is_space ws" and nm: "list_all is_word name"
    and v: "list_all (\<lambda>x. \<not> is_line_break x) val"
    by (auto simp add: export_pattern_def)
  have d: "drop 6 line = ws @ name @ CHR ''='' # val" and t: "take 6 line = ''export''"
    by (simp_all add: l)
  have r1: "dropWhile is_space (drop 6 line) = name @ CHR ''='' # val"
    using dropWhile_space_name [OF ws nm] d by simp
  have all: "\<forall>x\<in>set name. is_word x" using nm by (simp add: list_all_iff)
  have tk: "takeWhile is_word (name @ CHR ''='' # val) = name"
    using all by (simp add: takeWhile_tail eq_not_word)
  have dr: "dropWhile is_word (name @ CHR ''='' # val) = CHR ''='' # val"
    using all by (simp add: dropWhile_append3 eq_not_word)
  show ?thesis
    by (simp add: regexp_exec_def t r1 tk dr v Let_def del: take_Suc_Cons)
qed

lemma regexp_exec_sound:
  assumes "regexp_exec line = Some m"
  shows "\<exists>name val. m = [line, name, val] \<and> export_pattern line name val"
proof -
  define rest where "rest = drop 6 line"
  define r1 where "r1 = dropWhile is_space rest"
  define name where "name = takeWhile is_word r1"
  define r2 where "r2 = dropWhile is_word r1"
  from assms have t: "take 6 line = ''export''"
    by (simp add: regexp_exec_def split: if_splits)
  from assms t obtain val where r2: "r2 = CHR ''='' # val"
    and v: "list_all (\<lambda>x. \<not> is_line_break x) val" and m: "m = [line, name, val]"
    by (auto simp add: regexp_exec_def Let_def r2_def r1_def name_def rest_def
             split: list.splits if_splits)
  have "line = take 6 line @ rest" by (simp add: rest_def)
  also have "rest = takeWhile is_space rest @ r1" by (simp add: r1_def)
  also have "r1 = name @ r2" by (simp add: name_def r2_def)
  finally have "line = ''export'' @ takeWhile is_space rest @ name @ ''='' @ val"
    using t r2 by simp
  moreover have "list_all is_space (takeWhile is_space rest)"
    by (simp add: list_all_iff) (meson set_takeWhileD)
  moreover have "list_all is_word name"
    by (simp add: list_all_iff name_def) (meson set_takeWhileD)
  ultimately have "export_pattern line name val"
    using v by (auto simp add: export_pattern_def)
  with m show ?thesis by blast
qed

lemma split_aux_flag:
  "filter (\<lambda>l. l \<noteq> []) (split_aux [] True s) = filter (\<lambda>l. l \<noteq> []) (split_aux [] False s)"
  by (cases s) simp_all

lemma split_aux_break:
  "is_line_break c \<Longrightarrow> (f \<longrightarrow> cur = []) \<Longrightarrow>
   filter (\<lambda>l. l \<noteq> []) (split_aux cur f (a @ c # b))
     = filter (\<lambda>l. l \<noteq> []) (split_aux cur f a) @ filter (\<lambda>l. l \<noteq> []) (split_aux [] False b)"
proof (induction a arbitrary: cur f)
  case Nil
  then show ?case using split_aux_flag [of b] by auto
next
  case (Cons x a)
  then show ?case by auto
qed

lemma split_aux_plain:
  "list_all (\<lambda>x. \<not> is_line_break x) a \<Longrightarrow> split_aux cur f a = [cur @ a]"
  by (induction a arbitrary: cur f) simp_all

lemma nonempty_lines_laws:
  "nonempty_lines [] = []"
  "list_all (\<lambda>x. \<not> is_line_break x) a \<Longrightarrow> a \<noteq> [] \<Longrightarrow> nonempty_lines a = [a]"
  "is_line_break c \<Longrightarrow> nonempty_lines (a @ c # b) = nonempty_lines a @ nonempty_lines b"
  by (simp_all add: nonempty_lines_def split_lines_def split_aux_plain split_aux_break)



section \<open>Copying objects and assembling the search path\<close>


lemma obj_get_set [simp]: "obj_get (obj_set obj k v) k' = (if k' = k then Some v else obj_get obj k')"
  by (simp add: obj_get_def obj_set_def update_conv')

lemma object_assign_aux:
  "set ks \<subseteq> set (object_keys src) \<Longrightarrow>
   obj_get (fold (\<lambda>k t. case obj_get src k of Some v \<Rightarrow> obj_set t k v | None \<Rightarrow> t) ks t) k
     = (if k \<in> set ks then obj_get src k else obj_get t k)"
proof (induction ks arbitrary: t)
  case Nil
  then show ?case by simp
next
  case (Cons a ks)
  from Cons.prems have "a \<in> fst ` set src" by (simp add: object_keys_def)
  then obtain v where v: "obj_get src a = Some v"
    by (metis obj_get_def domD dom_map_of_conv_image_fst)
  from Cons.prems have "set ks \<subseteq> set (object_keys src)" by simp
  from Cons.IH [OF this] v show ?case by simp
qed

lemma obj_get_object_assign: "obj_get (object_assign [] src) k = obj_get src k"
proof -
  have "k \<notin> set (object_keys src) \<Longrightarrow> obj_get src k = None"
    by (simp add: object_keys_def obj_get_def map_of_eq_None_iff)
  then show ?thesis
    using object_assign_aux [of "object_keys src" src "[]" k]
    by (auto simp add: object_assign_def obj_get_def)
qed

lemma find_keys_obj_set:
  "find P (object_keys (obj_set t k v))
     = (case find P (object_keys t) of Some x \<Rightarrow> Some x | None \<Rightarrow> if P k then Some k else None)"
proof (induction t)
  case Nil
  then show ?case by (simp add: object_keys_def obj_set_def)
next
  case (Cons p t)
  then show ?case by (auto simp add: object_keys_def obj_set_def split: option.splits)
qed

lemma find_keys_fold:
  "set ks \<subseteq> set (object_keys src) \<Longrightarrow>
   find P (object_keys (fold (\<lambda>k t. case obj_get src k of Some v \<Rightarrow> obj_set t k v | None \<Rightarrow> t) ks t))
     = (case find P (object_keys t) of Some x \<Rightarrow> Some x | None \<Rightarrow> find P ks)"
proof (induction ks arbitrary: t)
  case Nil
  then show ?case by (simp split: option.splits)
next
  case (Cons a ks)
  from Cons.prems have "a \<in> fst ` set src" by (simp add: object_keys_def)
  then obtain v where v: "obj_get src a = Some v"
    by (metis obj_get_def domD dom_map_of_conv_image_fst)
  from Cons.prems have "set ks \<subseteq> set (object_keys src)" by simp
  from Cons.IH [OF this] v show ?case
    by (simp add: find_keys_obj_set split: option.splits)
qed

lemma pathVariableName_object_assign:
  "pathVariableName pf (object_assign [] src) = pathVariableName pf src"
  using find_keys_fold [of "object_keys src" src "\<lambda>v. toLowerCase v = ''path''" "[]"]
  by (simp add: pathVariableName_def object_assign_def object_keys_def)

lemma pathVariableName_not_kubeconfig: "pathVariableName pf env \<noteq> ''KUBECONFIG''"
proof -
  have "toLowerCase ''KUBECONFIG'' \<noteq> ''path''" by (simp add: toLowerCase_def)
  then show ?thesis
    by (auto simp add: pathVariableName_def split: option.splits dest!: find_Some_iff [THEN iffD1])
       
qed

lemma for_tools_path:
  "fst (for_tools h (Obj n) pv tools w) = Inr u \<Longrightarrow> n < length (objects w) \<Longrightarrow>
   obj_get (objects (snd (for_tools h (Obj n) pv tools w)) ! n) pv
     = foldl (append_entry (pathEntrySeparator (process_platform h)))
             (obj_get (objects w ! n) pv) (configured_dirs h tools)"
proof (induction tools arbitrary: w)
  case Nil
  then show ?case by (simp add: configured_dirs_def)
next
  case (Cons tool tools)
  show ?case
  proof (cases "truthy (configuration h (tool_setting tool))")
    case False
    with Cons show ?thesis by (simp add: configured_dirs_def tool_setting_def)
  next
    case True
    obtain r w1 where a: "autoDockerEnvConfig h (Obj n) w = (r, w1)" by (cases "autoDockerEnvConfig h (Obj n) w")
    then have o: "objects w1 = objects w" using autoDockerEnvConfig_objects [of h "Obj n" w] by simp
    from Cons.prems(1) True a obtain b where r: "r = Inr b"
      by (cases r) (simp_all add: tool_setting_def Let_def)
    let ?v = "(if truthy (obj_get (objects w ! n) pv)
                then the (obj_get (objects w ! n) pv) @ pathEntrySeparator (process_platform h)
                else []) @ path_dirname h (the (configuration h (tool_setting tool)))"
    let ?w2 = "store w1 (Obj n) (obj_set (deref w1 (Obj n)) pv ?v)"
    have step: "for_tools h (Obj n) pv (tool # tools) w = for_tools h (Obj n) pv tools ?w2"
      using True a r by (simp add: tool_setting_def Let_def)
    have len: "n < length (objects ?w2)" using Cons.prems(2) o by simp
    have "fst (for_tools h (Obj n) pv tools ?w2) = Inr u" using Cons.prems(1) step by simp
    from Cons.IH [OF this len]
    have "obj_get (objects (snd (for_tools h (Obj n) pv tools ?w2)) ! n) pv
            = foldl (append_entry (pathEntrySeparator (process_platform h))) (Some ?v) (configured_dirs h tools)"
      using Cons.prems(2) o by simp
    moreover have "Some ?v = append_entry (pathEntrySeparator (process_platform h)) (obj_get (objects w ! n) pv)
                       (path_dirname h (the (configuration h (tool_setting tool))))"
      by (cases "obj_get (objects w ! n) pv") (simp_all add: append_entry_def)
    ultimately show ?thesis
      using step True by (simp add: configured_dirs_def)
  qed
qed




lemma for_tools_frame:
  "n < length (objects w) \<Longrightarrow>
   length (objects (snd (for_tools h (Obj n) pv tools w))) = length (objects w)
   \<and> (\<forall>m. m \<noteq> n \<longrightarrow> objects (snd (for_tools h (Obj n) pv tools w)) ! m = objects w ! m)"
proof (induction tools arbitrary: w)
  case Nil
  then show ?case by simp
next
  case (Cons tool tools)
  show ?case
  proof (cases "truthy (configuration h (''vs-kubernetes.'' @ tool @ ''-path''))")
    case False
    with Cons show ?thesis by simp
  next
    case True
    obtain r w1 where a: "autoDockerEnvConfig h (Obj n) w = (r, w1)"
      by (cases "autoDockerEnvConfig h (Obj n) w")
    then have o: "objects w1 = objects w"
      using autoDockerEnvConfig_objects [of h "Obj n" w] by simp
    show ?thesis
    proof (cases r)
      case (Inl e)
      with True a o show ?thesis by (simp add: Let_def)
    next
      case (Inr b)
      let ?w2 = "store w1 (Obj n)
                   (obj_set (deref w1 (Obj n)) pv
                      ((if truthy (obj_get (deref w (Obj n)) pv)
                        then the (obj_get (deref w (Obj n)) pv) @ pathEntrySeparator (process_platform h)
                        else []) @ path_dirname h (the (configuration h (''vs-kubernetes.'' @ tool @ ''-path'')))))"
      have step: "for_tools h (Obj n) pv (tool # tools) w = for_tools h (Obj n) pv tools ?w2"
        using True a Inr by (simp add: Let_def)
      have len: "n < length (objects ?w2)" using Cons.prems o by simp
      from Cons.IH [OF len] show ?thesis
        unfolding step using o by simp
    qed
  qed
qed

lemma for_tools_skipped:
  "truthy (obj_get (process_env w) ''DOCKER_HOST'') \<or> truthy (obj_get (process_env w) ''DOCKER_CERT_PATH'')
   \<Longrightarrow> process_env (snd (for_tools h (Obj n) pv tools w)) = process_env w
       \<and> executed (snd (for_tools h (Obj n) pv tools w)) = executed w
       \<and> fst (for_tools h (Obj n) pv tools w) = Inr ()"
proof (induction tools arbitrary: w)
  case Nil
  then show ?case by simp
next
  case (Cons tool tools)
  have a: "autoDockerEnvConfig h (Obj n) w = (Inr False, w)"
    using Cons.prems by (rule autoDockerEnvConfig_skip)
  show ?case
  proof (cases "truthy (configuration h (''vs-kubernetes.'' @ tool @ ''-path''))")
    case False
    with Cons show ?thesis by simp
  next
    case True
    let ?w2 = "store w (Obj n)
                   (obj_set (deref w (Obj n)) pv
                      ((if truthy (obj_get (deref w (Obj n)) pv)
                        then the (obj_get (deref w (Obj n)) pv) @ pathEntrySeparator (process_platform h)
                        else []) @ path_dirname h (the (configuration h (''vs-kubernetes.'' @ tool @ ''-path'')))))"
    have step: "for_tools h (Obj n) pv (tool # tools) w = for_tools h (Obj n) pv tools ?w2"
      using True a by (simp add: Let_def)
    have "truthy (obj_get (process_env ?w2) ''DOCKER_HOST'') \<or> truthy (obj_get (process_env ?w2) ''DOCKER_CERT_PATH'')"
      using Cons.prems by simp
    from Cons.IH [OF this] show ?thesis unfolding step by simp
  qed
qed

lemma shellEnvironment_unfold:
  "shellEnvironment h base w =
     (let n = length (objects w);
          w1 = w\<lparr>objects := objects w @ [object_assign [] (deref w base)]\<rparr>;
          pv = pathVariableName (process_platform h) (deref w base);
          res = for_tools h (Obj n) pv [''kubectl'', ''helm'', ''draft''] w1
      in case fst res of
           Inl e \<Rightarrow> (Inl e, snd res)
         | Inr u \<Rightarrow>
             if truthy (configuration h ''vs-kubernetes.kubeconfig'')
             then (Inr (Obj n), store (snd res) (Obj n)
                      (obj_set (deref (snd res) (Obj n)) ''KUBECONFIG'' (the (configuration h ''vs-kubernetes.kubeconfig''))))
             else (Inr (Obj n), snd res))"
  by (simp add: shellEnvironment_def alloc_def Let_def pathVariableName_object_assign split_beta
           del: for_tools.simps split: sum.splits prod.splits)

lemma shellEnvironment_fresh:
  "fst (shellEnvironment h base w) = Inr e \<Longrightarrow> e = Obj (length (objects w))"
  by (auto simp add: shellEnvironment_unfold Let_def simp del: for_tools.simps split: sum.splits if_splits)

lemma shellEnvironment_path:
  assumes "fst (shellEnvironment h base w) = Inr e"
  shows "obj_get (deref (snd (shellEnvironment h base w)) e)
               (pathVariableName (process_platform h) (deref w base))
         = foldl (append_entry (pathEntrySeparator (process_platform h)))
                 (obj_get (deref w base) (pathVariableName (process_platform h) (deref w base)))
                 (configured_dirs h [''kubectl'', ''helm'', ''draft''])"
proof -
  let ?n = "length (objects w)"
  let ?w1 = "w\<lparr>objects := objects w @ [object_assign [] (deref w base)]\<rparr>"
  let ?pv = "pathVariableName (process_platform h) (deref w base)"
  let ?res = "for_tools h (Obj ?n) ?pv [''kubectl'', ''helm'', ''draft''] ?w1"
  have e: "e = Obj ?n" using assms by (rule shellEnvironment_fresh)
  from assms obtain u where u: "fst ?res = Inr u"
    by (auto simp add: shellEnvironment_unfold Let_def simp del: for_tools.simps split: sum.splits)
  have len: "?n < length (objects ?w1)" by simp
  have p: "obj_get (objects (snd ?res) ! ?n) ?pv
             = foldl (append_entry (pathEntrySeparator (process_platform h)))
                     (obj_get (objects ?w1 ! ?n) ?pv) (configured_dirs h [''kubectl'', ''helm'', ''draft''])"
    using for_tools_path [OF u len] .
  have l2: "?n < length (objects (snd ?res))"
    using for_tools_frame [OF len, of h ?pv "[''kubectl'', ''helm'', ''draft'']"] by (simp del: for_tools.simps)
  have "obj_get (deref (snd (shellEnvironment h base w)) e) ?pv = obj_get (objects (snd ?res) ! ?n) ?pv"
    using u e l2 pathVariableName_not_kubeconfig [of "process_platform h" "deref w base"]
    by (simp add: shellEnvironment_unfold Let_def del: for_tools.simps)
  with p show ?thesis by (simp add: obj_get_object_assign)
qed

lemma shellEnvironment_frame:
  assumes "valid_ref w r" "r \<noteq> ProcessEnv"
  shows "deref (snd (shellEnvironment h base w)) r = deref w r"
proof -
  from assms obtain m where r: "r = Obj m" and m: "m < length (objects w)"
    by (cases r) simp_all
  let ?n = "length (objects w)"
  let ?w1 = "w\<lparr>objects := objects w @ [object_assign [] (deref w base)]\<rparr>"
  let ?pv = "pathVariableName (process_platform h) (deref w base)"
  let ?res = "for_tools h (Obj ?n) ?pv [''kubectl'', ''helm'', ''draft''] ?w1"
  have len: "?n < length (objects ?w1)" by simp
  have f: "objects (snd ?res) ! m = objects ?w1 ! m"
    using for_tools_frame [OF len, of h ?pv "[''kubectl'', ''helm'', ''draft'']"] m by (simp del: for_tools.simps)
  have "objects (snd (shellEnvironment h base w)) ! m = objects (snd ?res) ! m"
    using m by (simp add: shellEnvironment_unfold Let_def del: for_tools.simps split: sum.splits)
  with f m show ?thesis by (simp add: r nth_append)
qed

lemma shellEnvironment_skipped:
  assumes "truthy (obj_get (process_env w) ''DOCKER_HOST'') \<or> truthy (obj_get (process_env w) ''DOCKER_CERT_PATH'')"
  shows "process_env (snd (shellEnvironment h base w)) = process_env w"
proof -
  let ?n = "length (objects w)"
  let ?w1 = "w\<lparr>objects := objects w @ [object_assign [] (deref w base)]\<rparr>"
  let ?pv = "pathVariableName (process_platform h) (deref w base)"
  have "truthy (obj_get (process_env ?w1) ''DOCKER_HOST'') \<or> truthy (obj_get (process_env ?w1) ''DOCKER_CERT_PATH'')"
    using assms by simp
  from for_tools_skipped [OF this, of h ?n ?pv "[''kubectl'', ''helm'', ''draft'']"]
  show ?thesis by (simp add: shellEnvironment_unfold Let_def del: for_tools.simps split: sum.splits)
qed

section \<open>Evaluation on the fixtures\<close>

lemmas eval_defs = autoDockerEnvConfig_def fake_host_def bare_world_def exec_sync_def
  configure_from_def split_lines_def export_line_def regexp_exec_def is_space_def is_word_def
  is_line_break_def replace_all_def obj_get_def obj_set_def console_log_def
  docker_env_output_def docker_env_output2_def Let_def

lemmas env_defs = shellEnvironment_def alloc_def object_assign_def object_keys_def
  pathVariableName_def isWindows_def pathEntrySeparator_def

section \<open>What a successful helper run does to the process environment\<close>

lemma export_line_match:
  assumes "export_pattern line name val"
  shows "process_env (export_line line w)
           = obj_set (process_env w) name (filter (\<lambda>c. c \<noteq> dquote) val)"
  using regexp_exec_complete [OF assms]
  by (simp add: export_line_def Let_def replace_all_empty)

lemma export_line_no_match:
  assumes "\<forall>name val. \<not> export_pattern line name val"
  shows "process_env (export_line line w) = process_env w"
proof (cases "regexp_exec line")
  case None
  then show ?thesis by (simp add: export_line_def)
next
  case (Some m)
  with regexp_exec_sound [OF Some] assms show ?thesis by blast
qed

lemma export_line_other:
  assumes "\<forall>val. \<not> export_pattern line name val"
  shows "obj_get (process_env (export_line line w)) name = obj_get (process_env w) name"
proof (cases "regexp_exec line")
  case None
  then show ?thesis by (simp add: export_line_def)
next
  case (Some m)
  from regexp_exec_sound [OF Some] obtain n v
    where m: "m = [line, n, v]" and p: "export_pattern line n v"
    by blast
  with assms have "n \<noteq> name" by blast
  with Some m show ?thesis by (simp add: export_line_def Let_def)
qed

lemma fold_export_line_other:
  "\<forall>l\<in>set ls. \<forall>val. \<not> export_pattern l name val \<Longrightarrow>
   obj_get (process_env (fold export_line ls w)) name = obj_get (process_env w) name"
  by (induction ls arbitrary: w) (simp_all add: export_line_other)

text \<open>
  After the loop a name holds the value, without its double quotes, of the last line
  that exports it.
\<close>

lemma fold_export_line_last:
  assumes "ls = before @ line # after" "export_pattern line name val"
      and "\<forall>l\<in>set after. \<forall>v. \<not> export_pattern l name v"
  shows "obj_get (process_env (fold export_line ls w)) name
           = Some (filter (\<lambda>c. c \<noteq> dquote) val)"
  using fold_export_line_other [OF assms(3)] export_line_match [OF assms(2)]
  by (simp add: assms(1))

text \<open>
  The output of minishift is used when minikube is not found, or its run fails, and
  minishift is found and its run succeeds. The first of the two cases:
\<close>

lemma minishift_success:
  assumes "\<not> truthy (obj_get (process_env w) ''DOCKER_HOST'')"
      and "\<not> truthy (obj_get (process_env w) ''DOCKER_CERT_PATH'')"
      and "\<not> truthy (shelljs_which h w ''minikube'')"
      and "truthy (shelljs_which h w ''minishift'')"
      and "code (shelljs_exec h w ''minishift docker-env'') = 0"
      and "stderr (shelljs_exec h w ''minishift docker-env'') = []"
  shows "autoDockerEnvConfig h env w
           = (Inr False,
              fold export_line (nonempty_lines (stdout (shelljs_exec h w ''minishift docker-env'')))
                   (w\<lparr>executed := executed w @ [''minishift docker-env'']\<rparr>))"
  using assms
  by (simp add: autoDockerEnvConfig_def exec_sync_def configure_from_def nonempty_lines_def)

text \<open>The second case: minikube is found, its run fails, and minishift is tried next.\<close>

lemma minishift_after_minikube_failure:
  assumes "\<not> truthy (obj_get (process_env w) ''DOCKER_HOST'')"
      and "\<not> truthy (obj_get (process_env w) ''DOCKER_CERT_PATH'')"
      and "truthy (shelljs_which h w ''minikube'')"
      and "code (shelljs_exec h w ''minikube docker-env'') \<noteq> 0
           \<or> stderr (shelljs_exec h w ''minikube docker-env'') \<noteq> []"
      and "w1 = w\<lparr>executed := executed w @ [''minikube docker-env'']\<rparr>"
      and "truthy (shelljs_which h w1 ''minishift'')"
      and "code (shelljs_exec h w1 ''minishift docker-env'') = 0"
      and "stderr (shelljs_exec h w1 ''minishift docker-env'') = []"
  shows "autoDockerEnvConfig h env w
           = (Inr False,
              fold export_line (nonempty_lines (stdout (shelljs_exec h w1 ''minishift docker-env'')))
                   (w1\<lparr>executed := executed w1 @ [''minishift docker-env'']\<rparr>))"
  using assms
  by (auto simp add: autoDockerEnvConfig_def exec_sync_def configure_from_def nonempty_lines_def)

lemma minishift_run_on_fixture:
  "autoDockerEnvConfig (fake_host [''minishift''] docker_env_output2) (Obj 0) bare_world
     = (Inr False,
        bare_world\<lparr>process_env := [(''PATH'', ''/usr/bin''), (''DOCKER_TLS_VERIFY'', ''1''),
                                    (''DOCKER_API_VERSION'', ''1.35'')],
          executed := [''minishift docker-env''],
          console := [''DOCKER_TLS_VERIFY=1'', ''No match for line :# Run this command'',
                      ''DOCKER_API_VERSION=1.35'']\<rparr>)"
  by (simp add: eval_defs)

section \<open>The claims about the auto-detection\<close>

text \<open>
  Claim C1 asks that, when minikube is found and \<open>minikube docker-env\<close> exits with
  code 0 and an empty standard error, its output is used, so that the line
  \<open>export DOCKER_HOST="tcp://1.2.3.4:2376"\<close> leaves \<open>DOCKER_HOST\<close> equal to
  \<open>tcp://1.2.3.4:2376\<close>. The code does not do that: line 162 sets \<open>shellResult\<close> to
  \<open>null\<close> after the run of minikube, minishift is not tried, and line 172 reads
  \<open>.code\<close> of \<open>null\<close>. On the fake minikube the call throws a TypeError after
  running the helper, and \<open>DOCKER_HOST\<close> is still undefined.
\<close>

theorem minikube_success_throws_on_fixture:
  "autoDockerEnvConfig (fake_host [''minikube''] docker_env_output) (Obj 0) bare_world
     = (Inl TypeError, bare_world\<lparr>executed := [''minikube docker-env'']\<rparr>)
   \<and> obj_get (process_env (snd (autoDockerEnvConfig (fake_host [''minikube''] docker_env_output)
                                  (Obj 0) bare_world))) ''DOCKER_HOST'' = None"
  by (simp add: eval_defs)

theorem minikube_success_throws_on_fixture_witness:
  "truthy (shelljs_which (fake_host [''minikube''] docker_env_output) bare_world ''minikube'')
   \<and> code (shelljs_exec (fake_host [''minikube''] docker_env_output) bare_world
             ''minikube docker-env'') = 0
   \<and> stderr (shelljs_exec (fake_host [''minikube''] docker_env_output) bare_world
               ''minikube docker-env'') = []
   \<and> fst (autoDockerEnvConfig (fake_host [''minikube''] docker_env_output) (Obj 0) bare_world)
       = Inl TypeError"
  using minikube_success_throws_on_fixture
  by (simp add: fake_host_def)

text \<open>
  Claim C3. Whenever \<open>autoDockerEnvConfig\<close> returns normally, the boolean it returns
  is \<open>false\<close>; this includes the run in which minishift succeeded and the exported
  variables were written, as the fake minishift shows.
\<close>

theorem autoDockerEnvConfig_returns_false:
  "fst (autoDockerEnvConfig h env w) = Inr b \<Longrightarrow> b = False"
  by (auto simp add: autoDockerEnvConfig_def configure_from_def Let_def split_beta
           split: if_splits option.splits)

theorem autoDockerEnvConfig_returns_false_witness:
  "fst (autoDockerEnvConfig (fake_host [''minishift''] docker_env_output) (Obj 0) bare_world)
     = Inr False
   \<and> obj_get (process_env (snd (autoDockerEnvConfig (fake_host [''minishift''] docker_env_output)
                                  (Obj 0) bare_world))) ''DOCKER_HOST''
       = Some ''tcp://1.2.3.4:2376''"
  using autoDockerEnvConfig_returns_false
          [of "fake_host [''minishift''] docker_env_output" "Obj 0" bare_world False]
  by (simp add: eval_defs)



text \<open>
  Claim C5 asks that the output of a helper run that exits with code 0 and an empty
  standard error is split into lines and that every line of the form
  \<open>export NAME=VALUE\<close> sets \<open>NAME\<close>. For a run of minishift the parsing is
  reached, and with the process environment taken as an ordinary object it does so
  (\<open>minishift_success\<close>, \<open>nonempty_lines_laws\<close>, \<open>regexp_exec_complete\<close>,
  \<open>regexp_exec_sound\<close>, \<open>fold_export_line_last\<close>, \<open>fold_export_line_other\<close>). For a
  run of minikube it does not, by the defect of claim C1: with both helpers found and
  two export lines in the output, the call throws before the output is read and no
  variable is set.
\<close>

theorem minikube_output_not_parsed_on_fixture:
  "autoDockerEnvConfig (fake_host [''minikube'', ''minishift''] docker_env_output2) (Obj 0) bare_world
     = (Inl TypeError, bare_world\<lparr>executed := [''minikube docker-env'']\<rparr>)
   \<and> obj_get (process_env (snd (autoDockerEnvConfig
                                  (fake_host [''minikube'', ''minishift''] docker_env_output2)
                                  (Obj 0) bare_world))) ''DOCKER_TLS_VERIFY'' = None"
  by (simp add: eval_defs)

theorem minikube_output_not_parsed_on_fixture_witness:
  "truthy (shelljs_which (fake_host [''minikube'', ''minishift''] docker_env_output2) bare_world
             ''minikube'')
   \<and> code (shelljs_exec (fake_host [''minikube'', ''minishift''] docker_env_output2) bare_world
             ''minikube docker-env'') = 0
   \<and> stderr (shelljs_exec (fake_host [''minikube'', ''minishift''] docker_env_output2) bare_world
               ''minikube docker-env'') = []
   \<and> fst (autoDockerEnvConfig (fake_host [''minikube'', ''minishift''] docker_env_output2)
             (Obj 0) bare_world) = Inl TypeError"
  using minikube_output_not_parsed_on_fixture
  by (simp add: fake_host_def)

text \<open>
  Claim C6. When neither minikube nor minishift is found, the call returns \<open>false\<close>
  without throwing, and the world is left as it was. This holds whether or not
  \<open>DOCKER_HOST\<close> and \<open>DOCKER_CERT_PATH\<close> are set; the witness has both unset.
\<close>

theorem no_helper_returns_false:
  "shelljs_which h w ''minikube'' = None \<Longrightarrow> shelljs_which h w ''minishift'' = None
   \<Longrightarrow> autoDockerEnvConfig h env w = (Inr False, w)"
  by (simp add: autoDockerEnvConfig_def)

theorem no_helper_returns_false_witness:
  "obj_get (process_env bare_world) ''DOCKER_HOST'' = None
   \<and> obj_get (process_env bare_world) ''DOCKER_CERT_PATH'' = None
   \<and> shelljs_which (fake_host [] docker_env_output) bare_world ''minikube'' = None
   \<and> shelljs_which (fake_host [] docker_env_output) bare_world ''minishift'' = None
   \<and> autoDockerEnvConfig (fake_host [] docker_env_output) (Obj 0) bare_world
       = (Inr False, bare_world)"
  using no_helper_returns_false [of "fake_host [] docker_env_output" bare_world "Obj 0"]
  by (simp add: fake_host_def bare_world_def obj_get_def)

section \<open>The claims about the environment of spawned commands\<close>

text \<open>
  Claim C2 as it is written fails: line 133 puts the directory of a tool after the
  current value, not before it. With \<open>PATH\<close> equal to \<open>/bin\<close>, kubectl in
  \<open>/opt/k\<close> and helm in \<open>/opt/h\<close>, the result is \<open>/bin:/opt/k:/opt/h\<close>: the
  later tool is at the end, and the value that prepending would give is not reached.
\<close>

theorem path_prepend_counterexample:
  "fst (shellEnvironment (fake_host [] docker_env_output) (Obj 0) bare_world) = Inr (Obj 1)
   \<and> obj_get (deref bare_world (Obj 0)) ''PATH'' = Some ''/bin''
   \<and> obj_get (deref (snd (shellEnvironment (fake_host [] docker_env_output) (Obj 0) bare_world))
                (Obj 1)) ''PATH'' = Some ''/bin:/opt/k:/opt/h''
   \<and> obj_get (deref (snd (shellEnvironment (fake_host [] docker_env_output) (Obj 0) bare_world))
                (Obj 1)) ''PATH'' \<noteq> Some ''/opt/h:/opt/k:/bin''"
  by (simp add: eval_defs env_defs)

text \<open>
  Claim C2, amended. When \<open>shellEnvironment\<close> returns, the search-path variable of the
  object it returns is the one of the base environment with the directory of every
  configured tool appended, in the order kubectl, helm, draft, each after a separator
  unless the value before it is undefined or empty. Tools later in that order end up
  closer to the end of the value.
\<close>

theorem shellEnvironment_appends:
  "fst (shellEnvironment h base w) = Inr e \<Longrightarrow>
   obj_get (deref (snd (shellEnvironment h base w)) e)
           (pathVariableName (process_platform h) (deref w base))
     = foldl (append_entry (pathEntrySeparator (process_platform h)))
             (obj_get (deref w base) (pathVariableName (process_platform h) (deref w base)))
             (configured_dirs h [''kubectl'', ''helm'', ''draft''])"
  by (rule shellEnvironment_path)

theorem shellEnvironment_appends_witness:
  "fst (shellEnvironment (fake_host [''minishift''] docker_env_output) ProcessEnv bare_world)
     = Inr (Obj 1)
   \<and> pathVariableName ''linux'' (deref bare_world ProcessEnv) = ''PATH''
   \<and> configured_dirs (fake_host [''minishift''] docker_env_output) [''kubectl'', ''helm'', ''draft'']
       = [''/opt/k'', ''/opt/h'']
   \<and> obj_get (deref (snd (shellEnvironment (fake_host [''minishift''] docker_env_output)
                             ProcessEnv bare_world)) (Obj 1)) ''PATH''
       = Some ''/usr/bin:/opt/k:/opt/h''"
  using shellEnvironment_appends
          [of "fake_host [''minishift''] docker_env_output" ProcessEnv bare_world "Obj 1"]
  by (simp add: eval_defs env_defs configured_dirs_def tool_setting_def append_entry_def)

text \<open>
  Claim C10 as it is written fails for one input mapping: the process environment
  itself. \<open>execOpts\<close> passes \<open>process.env\<close> to \<open>shellEnvironment\<close> on every platform
  but Windows; the auto-detection then writes into that very object. With a fake
  minishift, \<open>DOCKER_HOST\<close> is undefined in it before the call and defined after.
\<close>

theorem process_env_alias_counterexample:
  "obj_get (deref bare_world ProcessEnv) ''DOCKER_HOST'' = None
   \<and> obj_get (deref (snd (shellEnvironment (fake_host [''minishift''] docker_env_output)
                             ProcessEnv bare_world)) ProcessEnv) ''DOCKER_HOST''
       = Some ''tcp://1.2.3.4:2376''
   \<and> deref (snd (shellEnvironment (fake_host [''minishift''] docker_env_output)
                   ProcessEnv bare_world)) ProcessEnv
       \<noteq> deref bare_world ProcessEnv"
  by (simp add: eval_defs env_defs)

text \<open>
  Claim C10, amended. \<open>autoDockerEnvConfig\<close> does not depend on its \<open>env\<close> argument
  and changes no object other than the process environment. \<open>shellEnvironment\<close>
  changes no object that existed before the call other than the process environment,
  whether it returns or throws; the object it returns is a new one; and when the
  auto-detection is skipped the process environment is unchanged as well, so the
  writes of the search path and of \<open>KUBECONFIG\<close> go to the new object only. Hence
  every input mapping other than the process environment is the same before and
  after either call.
\<close>

theorem caller_objects_unchanged:
  "autoDockerEnvConfig h env w = autoDockerEnvConfig h env' w
   \<and> (r \<noteq> ProcessEnv \<longrightarrow> deref (snd (autoDockerEnvConfig h env w)) r = deref w r)
   \<and> (valid_ref w r \<and> r \<noteq> ProcessEnv \<longrightarrow> deref (snd (shellEnvironment h base w)) r = deref w r)
   \<and> (fst (shellEnvironment h base w) = Inr e \<longrightarrow> e = Obj (length (objects w)) \<and> \<not> valid_ref w e)
   \<and> (truthy (obj_get (process_env w) ''DOCKER_HOST'')
        \<or> truthy (obj_get (process_env w) ''DOCKER_CERT_PATH'')
      \<longrightarrow> process_env (snd (shellEnvironment h base w)) = process_env w)"
proof -
  have a: "autoDockerEnvConfig h env w = autoDockerEnvConfig h env' w"
    by (simp add: autoDockerEnvConfig_def)
  have b: "r \<noteq> ProcessEnv \<longrightarrow> deref (snd (autoDockerEnvConfig h env w)) r = deref w r"
    by (cases r) simp_all
  have c: "valid_ref w r \<and> r \<noteq> ProcessEnv \<longrightarrow> deref (snd (shellEnvironment h base w)) r = deref w r"
    using shellEnvironment_frame by blast
  have d: "fst (shellEnvironment h base w) = Inr e \<longrightarrow> e = Obj (length (objects w)) \<and> \<not> valid_ref w e"
    using shellEnvironment_fresh [of h base w e] by auto
  have e: "truthy (obj_get (process_env w) ''DOCKER_HOST'')
            \<or> truthy (obj_get (process_env w) ''DOCKER_CERT_PATH'')
          \<longrightarrow> process_env (snd (shellEnvironment h base w)) = process_env w"
    using shellEnvironment_skipped by blast
  from a b c d e show ?thesis by blast
qed

theorem caller_objects_unchanged_witness:
  "valid_ref bare_world (Obj 0) \<and> Obj 0 \<noteq> ProcessEnv
   \<and> deref (snd (autoDockerEnvConfig (fake_host [''minishift''] docker_env_output) (Obj 0) bare_world))
        (Obj 0) = deref bare_world (Obj 0)
   \<and> deref (snd (shellEnvironment (fake_host [''minishift''] docker_env_output) (Obj 0) bare_world))
        (Obj 0) = deref bare_world (Obj 0)
   \<and> fst (shellEnvironment (fake_host [''minishift''] docker_env_output) (Obj 0) bare_world)
       = Inr (Obj 1)
   \<and> truthy (obj_get (process_env (bare_world\<lparr>process_env := [(''DOCKER_HOST'', ''tcp://h:1'')]\<rparr>))
               ''DOCKER_HOST'')
   \<and> process_env (snd (shellEnvironment (fake_host [''minishift''] docker_env_output) ProcessEnv
                        (bare_world\<lparr>process_env := [(''DOCKER_HOST'', ''tcp://h:1'')]\<rparr>)))
       = [(''DOCKER_HOST'', ''tcp://h:1'')]"
  using caller_objects_unchanged
          [of "fake_host [''minishift''] docker_env_output" "Obj 0" bare_world ProcessEnv "Obj 0"
              "Obj 0" "Obj 1"]
        caller_objects_unchanged
          [of "fake_host [''minishift''] docker_env_output" "Obj 0"
              "bare_world\<lparr>process_env := [(''DOCKER_HOST'', ''tcp://h:1'')]\<rparr>" ProcessEnv "Obj 0"
              ProcessEnv "Obj 1"]
  by (simp add: eval_defs env_defs)

end
